theory Spec2Isabelle
  imports Complex_Main "HOL-Library.Sublist"
begin

section \<open>Job Application Assistant: data model\<close>

text \<open>
  The program (\<^verbatim>\<open>app.py\<close>) keeps two value objects, \<^verbatim>\<open>UserProfile\<close> and
  \<^verbatim>\<open>JobDescription\<close>, stores them as JSON files, renders them into prompts for a remote
  text-completion service and writes the answers to timestamped files.

  Field types follow the type hints of the two constructors: \<^verbatim>\<open>str\<close> is \<open>string\<close>,
  \<^verbatim>\<open>List[str]\<close> is \<open>string list\<close>, \<^verbatim>\<open>Dict[str, str]\<close> is an association list (a Python
  dict keeps insertion order, and a lookup is \<open>map_of\<close>), and \<^verbatim>\<open>Optional[str]\<close> is
  \<open>string option\<close> with \<open>None\<close> for Python's \<^verbatim>\<open>None\<close>.

  Every exception the modelled code can raise is a value of \<open>error\<close>; a function that can
  raise returns \<open>error + 'a\<close> with \<open>Inl\<close> for the exception.
\<close>

datatype error =
    KeyError string
  | AttributeError
  | JSONDecodeError
  | IsADirectoryError
  | IndexError
  | APIError string
  | SchemaMismatch

type_synonym pydict = "(string \<times> string) list"

record UserProfile =
  full_name :: string
  contact_email :: string
  phone_number :: string
  professional_summary :: string
  skills :: "string list"
  experiences :: "pydict list"
  education :: "pydict list"

record JobDescription =
  company_name :: string
  position_title :: string
  responsibilities :: string
  required_skills :: "string list"
  job_location :: string
  job_summary :: string
  additional_notes :: "string option"

text \<open>
  \<^verbatim>\<open>JobDescription.__init__\<close> declares \<^verbatim>\<open>additional_notes: Optional[str] = None\<close>; a call
  with six arguments leaves the seventh at that default.
\<close>

definition JobDescription_init6 ::
  "string \<Rightarrow> string \<Rightarrow> string \<Rightarrow> string list \<Rightarrow> string \<Rightarrow> string \<Rightarrow> JobDescription" where
  "JobDescription_init6 cn pt rs sk loc summ =
     \<lparr>company_name = cn, position_title = pt, responsibilities = rs, required_skills = sk,
      job_location = loc, job_summary = summ, additional_notes = None\<rparr>"

subsection \<open>JSON documents\<close>

text \<open>
  A JSON document as \<^verbatim>\<open>json.load\<close> returns it and \<^verbatim>\<open>json.dump\<close> accepts it. An object is
  the Python dict it parses to, written as an association list.
\<close>

datatype json =
    JNull
  | JBool bool
  | JNumber int
  | JString string
  | JArray "json list"
  | JObject "(string \<times> json) list"

text \<open>\<^verbatim>\<open>data.get(key, default)\<close> on a parsed object.\<close>

definition dict_get :: "(string \<times> json) list \<Rightarrow> string \<Rightarrow> json \<Rightarrow> json" where
  "dict_get d k dflt = (case map_of d k of None \<Rightarrow> dflt | Some v \<Rightarrow> v)"

text \<open>
  The typed records can hold only values of the hinted types. The readers below take a
  JSON value into its typed form; a value of another shape (which Python would store in
  the object as it is) has no typed form and is reported as \<open>SchemaMismatch\<close>.
\<close>

fun as_str :: "json \<Rightarrow> error + string" where
  "as_str (JString s) = Inr s"
| "as_str _ = Inl SchemaMismatch"

fun as_opt_str :: "json \<Rightarrow> error + string option" where
  "as_opt_str JNull = Inr None"
| "as_opt_str (JString s) = Inr (Some s)"
| "as_opt_str _ = Inl SchemaMismatch"

fun sequence :: "(error + 'a) list \<Rightarrow> error + 'a list" where
  "sequence [] = Inr []"
| "sequence (r # rs) =
     (case r of Inl e \<Rightarrow> Inl e
      | Inr x \<Rightarrow> (case sequence rs of Inl e \<Rightarrow> Inl e | Inr xs \<Rightarrow> Inr (x # xs)))"

fun as_str_list :: "json \<Rightarrow> error + string list" where
  "as_str_list (JArray js) = sequence (map as_str js)"
| "as_str_list _ = Inl SchemaMismatch"

fun as_field :: "string \<times> json \<Rightarrow> error + string \<times> string" where
  "as_field (k, v) = (case as_str v of Inl e \<Rightarrow> Inl e | Inr s \<Rightarrow> Inr (k, s))"

fun as_pydict :: "json \<Rightarrow> error + pydict" where
  "as_pydict (JObject kvs) = sequence (map as_field kvs)"
| "as_pydict _ = Inl SchemaMismatch"

fun as_pydict_list :: "json \<Rightarrow> error + pydict list" where
  "as_pydict_list (JArray js) = sequence (map as_pydict js)"
| "as_pydict_list _ = Inl SchemaMismatch"

definition json_of_pydict :: "pydict \<Rightarrow> json" where
  "json_of_pydict d = JObject (map (\<lambda>(k, v). (k, JString v)) d)"

definition json_of_opt_str :: "string option \<Rightarrow> json" where
  "json_of_opt_str n = (case n of None \<Rightarrow> JNull | Some s \<Rightarrow> JString s)"

subsection \<open>\<^verbatim>\<open>to_dict\<close> and \<^verbatim>\<open>from_dict\<close>\<close>

definition UserProfile_to_dict :: "UserProfile \<Rightarrow> json" where
  "UserProfile_to_dict u = JObject
     [(''full_name'', JString (full_name u)),
      (''contact_email'', JString (contact_email u)),
      (''phone_number'', JString (phone_number u)),
      (''professional_summary'', JString (professional_summary u)),
      (''skills'', JArray (map JString (skills u))),
      (''experiences'', JArray (map json_of_pydict (experiences u))),
      (''education'', JArray (map json_of_pydict (education u)))]"

text \<open>
  \<^verbatim>\<open>from_dict\<close> calls \<^verbatim>\<open>data.get\<close>, which only a dict has: any other document raises
  \<^verbatim>\<open>AttributeError\<close>. A missing key takes the default written in the source.
\<close>

fun UserProfile_from_dict :: "json \<Rightarrow> error + UserProfile" where
  "UserProfile_from_dict (JObject d) =
     (case as_str (dict_get d ''full_name'' (JString '''')) of Inl e \<Rightarrow> Inl e | Inr fn \<Rightarrow>
      case as_str (dict_get d ''contact_email'' (JString '''')) of Inl e \<Rightarrow> Inl e | Inr ce \<Rightarrow>
      case as_str (dict_get d ''phone_number'' (JString '''')) of Inl e \<Rightarrow> Inl e | Inr pn \<Rightarrow>
      case as_str (dict_get d ''professional_summary'' (JString '''')) of Inl e \<Rightarrow> Inl e | Inr ps \<Rightarrow>
      case as_str_list (dict_get d ''skills'' (JArray [])) of Inl e \<Rightarrow> Inl e | Inr sk \<Rightarrow>
      case as_pydict_list (dict_get d ''experiences'' (JArray [])) of Inl e \<Rightarrow> Inl e | Inr ex \<Rightarrow>
      case as_pydict_list (dict_get d ''education'' (JArray [])) of Inl e \<Rightarrow> Inl e | Inr ed \<Rightarrow>
      Inr \<lparr>full_name = fn, contact_email = ce, phone_number = pn, professional_summary = ps,
           skills = sk, experiences = ex, education = ed\<rparr>)"
| "UserProfile_from_dict _ = Inl AttributeError"

definition JobDescription_to_dict :: "JobDescription \<Rightarrow> json" where
  "JobDescription_to_dict j = JObject
     [(''company_name'', JString (company_name j)),
      (''position_title'', JString (position_title j)),
      (''responsibilities'', JString (responsibilities j)),
      (''required_skills'', JArray (map JString (required_skills j))),
      (''job_location'', JString (job_location j)),
      (''job_summary'', JString (job_summary j)),
      (''additional_notes'', json_of_opt_str (additional_notes j))]"

fun JobDescription_from_dict :: "json \<Rightarrow> error + JobDescription" where
  "JobDescription_from_dict (JObject d) =
     (case as_str (dict_get d ''company_name'' (JString '''')) of Inl e \<Rightarrow> Inl e | Inr cn \<Rightarrow>
      case as_str (dict_get d ''position_title'' (JString '''')) of Inl e \<Rightarrow> Inl e | Inr pt \<Rightarrow>
      case as_str (dict_get d ''responsibilities'' (JString '''')) of Inl e \<Rightarrow> Inl e | Inr rs \<Rightarrow>
      case as_str_list (dict_get d ''required_skills'' (JArray [])) of Inl e \<Rightarrow> Inl e | Inr sk \<Rightarrow>
      case as_str (dict_get d ''job_location'' (JString '''')) of Inl e \<Rightarrow> Inl e | Inr loc \<Rightarrow>
      case as_str (dict_get d ''job_summary'' (JString '''')) of Inl e \<Rightarrow> Inl e | Inr summ \<Rightarrow>
      case as_opt_str (dict_get d ''additional_notes'' (JString '''')) of Inl e \<Rightarrow> Inl e | Inr an \<Rightarrow>
      Inr \<lparr>company_name = cn, position_title = pt, responsibilities = rs, required_skills = sk,
           job_location = loc, job_summary = summ, additional_notes = an\<rparr>)"
| "JobDescription_from_dict _ = Inl AttributeError"

section \<open>Format-instruction providers\<close>

definition JakesResumeFormatter_get_format_instructions :: string where
  "JakesResumeFormatter_get_format_instructions =
     ''Use Jake's Resume Format:\<newline>'' @
     ''1. Header with the candidate's name in a bold or emphasized style.\<newline>'' @
     ''2. Immediately below, contact details (email and phone) on one line.\<newline>'' @
     ''3. A short 'Professional Summary' section.\<newline>'' @
     ''4. A 'Skills' section with bullet points.\<newline>'' @
     ''5. An 'Experience' section in chronological order (most recent first).\<newline>'' @
     ''6. An 'Education' section with degrees, institutions, and graduation dates.\<newline>'' @
     ''7. Keep layout neat and minimal, using consistent headings.\<newline>''"

definition JakesResumeFormatter_post_process_text :: "string \<Rightarrow> string" where
  "JakesResumeFormatter_post_process_text llm_output = llm_output"

definition DedyCoverLetterFormatter_get_format_instructions :: string where
  "DedyCoverLetterFormatter_get_format_instructions =
     ''Use Dedy's Cover Letter Format:\<newline>'' @
     ''1. Start with a polite salutation (e.g., 'Dear Hiring Manager at COMPANY').\<newline>'' @
     ''2. A short introduction referencing the position title and why you're interested.\<newline>'' @
     ''3. One or two concise paragraphs connecting your key skills to the job requirements.\<newline>'' @
     ''4. A concluding paragraph that reaffirms your interest and gratitude.\<newline>'' @
     ''5. A formal sign-off (e.g., 'Sincerely,') followed by your full name.\<newline>'' @
     ''6. Maintain a professional yet friendly tone throughout.\<newline>''"

definition DedyCoverLetterFormatter_post_process_text :: "string \<Rightarrow> string" where
  "DedyCoverLetterFormatter_post_process_text llm_output = llm_output"

section \<open>Loading and saving\<close>

text \<open>
  The file system maps a path to what is stored there. A file is described by what
  \<^verbatim>\<open>json.load\<close> makes of its text: a document (\<open>JsonFile\<close>) or a decoding error
  (\<open>NonJsonFile\<close>). \<^verbatim>\<open>json.dump\<close> followed by \<^verbatim>\<open>json.load\<close> is taken to give the document
  back, which is the standard library's contract for documents built from strings, lists,
  string-keyed dicts and \<^verbatim>\<open>None\<close>. Opening a directory raises. Lines printed to the console
  are returned as the first component of the result.
\<close>

datatype fnode = JsonFile json | NonJsonFile | Directory

type_synonym filesystem = "string \<Rightarrow> fnode option"

fun read_json :: "fnode \<Rightarrow> error + json" where
  "read_json (JsonFile data) = Inr data"
| "read_json NonJsonFile = Inl JSONDecodeError"
| "read_json Directory = Inl IsADirectoryError"

definition load_user_profile ::
  "string \<Rightarrow> filesystem \<Rightarrow> string list \<times> (error + UserProfile)" where
  "load_user_profile profile_file fs =
     (case fs profile_file of
        None \<Rightarrow>
          ([''[WARNING] No profile file found at '' @ [CHR 0x27] @ profile_file @ [CHR 0x27] @
            ''. Returning a blank profile.''],
           Inr \<lparr>full_name = '''', contact_email = '''', phone_number = '''',
                professional_summary = '''', skills = [], experiences = [], education = []\<rparr>)
      | Some node \<Rightarrow>
          (case read_json node of
             Inl e \<Rightarrow> ([], Inl e)
           | Inr data \<Rightarrow> ([], UserProfile_from_dict data)))"

definition save_user_profile ::
  "UserProfile \<Rightarrow> string \<Rightarrow> filesystem \<Rightarrow> string list \<times> (error + filesystem)" where
  "save_user_profile profile profile_file fs =
     (case fs profile_file of
        Some Directory \<Rightarrow> ([], Inl IsADirectoryError)
      | _ \<Rightarrow>
          ([''[INFO] User profile saved to '' @ [CHR 0x27] @ profile_file @ [CHR 0x27] @ ''.''],
           Inr (fs(profile_file \<mapsto> JsonFile (UserProfile_to_dict profile)))))"

definition load_job_description ::
  "string \<Rightarrow> filesystem \<Rightarrow> string list \<times> (error + JobDescription)" where
  "load_job_description job_file fs =
     (case fs job_file of
        None \<Rightarrow>
          ([''[WARNING] No job description file found at '' @ [CHR 0x27] @ job_file @ [CHR 0x27] @
            ''. Returning a blank job description.''],
           Inr (JobDescription_init6 '''' '''' '''' [] '''' ''''))
      | Some node \<Rightarrow>
          (case read_json node of
             Inl e \<Rightarrow> ([], Inl e)
           | Inr data \<Rightarrow> ([], JobDescription_from_dict data)))"

definition save_job_description ::
  "JobDescription \<Rightarrow> string \<Rightarrow> filesystem \<Rightarrow> string list \<times> (error + filesystem)" where
  "save_job_description job_desc job_file fs =
     (case fs job_file of
        Some Directory \<Rightarrow> ([], Inl IsADirectoryError)
      | _ \<Rightarrow>
          ([''[INFO] Job description saved to '' @ [CHR 0x27] @ job_file @ [CHR 0x27] @ ''.''],
           Inr (fs(job_file \<mapsto> JsonFile (JobDescription_to_dict job_desc)))))"

section \<open>String helpers of the Python runtime\<close>

text \<open>\<^verbatim>\<open>sep.join(xs)\<close>.\<close>

fun py_join :: "string \<Rightarrow> string list \<Rightarrow> string" where
  "py_join sep [] = []"
| "py_join sep [x] = x"
| "py_join sep (x # y # ys) = x @ sep @ py_join sep (y # ys)"

text \<open>\<^verbatim>\<open>d[key]\<close> on a dict: \<^verbatim>\<open>KeyError\<close> when the key is missing.\<close>

definition getitem :: "pydict \<Rightarrow> string \<Rightarrow> error + string" where
  "getitem d k = (case map_of d k of None \<Rightarrow> Inl (KeyError k) | Some v \<Rightarrow> Inr v)"

text \<open>An integer inside an f-string: its decimal digits.\<close>

definition digit_char :: "nat \<Rightarrow> char" where
  "digit_char d = ''0123456789'' ! d"

function string_of_nat :: "nat \<Rightarrow> string" where
  "string_of_nat n =
     (if n < 10 then [digit_char n] else string_of_nat (n div 10) @ [digit_char (n mod 10)])"
  by pat_completeness auto
termination
  by (relation "measure id") auto

declare string_of_nat.simps [simp del]

text \<open>An \<^verbatim>\<open>Optional[str]\<close> inside an f-string: \<^verbatim>\<open>None\<close> prints as the word \<^verbatim>\<open>None\<close>.\<close>

definition format_opt_str :: "string option \<Rightarrow> string" where
  "format_opt_str n = (case n of None \<Rightarrow> ''None'' | Some s \<Rightarrow> s)"

text \<open>\<^verbatim>\<open>x or default\<close> on an \<^verbatim>\<open>Optional[str]\<close>: \<^verbatim>\<open>None\<close> and the empty string are falsy.\<close>

definition falsy :: "string option \<Rightarrow> bool" where
  "falsy n = (case n of None \<Rightarrow> True | Some s \<Rightarrow> s = [])"

definition or_default :: "string option \<Rightarrow> string \<Rightarrow> string" where
  "or_default n dflt = (if falsy n then dflt else format_opt_str n)"

text \<open>
  \<^verbatim>\<open>s.strip()\<close>: drops leading and trailing whitespace. A \<open>char\<close> is read as a code point
  below 256; the whitespace code points in that range are listed.
\<close>

definition is_space :: "char \<Rightarrow> bool" where
  "is_space c = ((of_char c :: nat) \<in> set [9, 10, 11, 12, 13, 28, 29, 30, 31, 32, 133, 160])"

definition py_strip :: "string \<Rightarrow> string" where
  "py_strip s = rev (dropWhile is_space (rev (dropWhile is_space s)))"

section \<open>Resume and cover letter generators\<close>

subsection \<open>\<^verbatim>\<open>build_base_resume_text\<close>\<close>

text \<open>The body of the loop over \<^verbatim>\<open>user.experiences\<close>: two lines appended per entry.\<close>

definition experience_lines :: "pydict \<Rightarrow> error + string list" where
  "experience_lines exp' =
     (case getitem exp' ''role'' of Inl e \<Rightarrow> Inl e | Inr role \<Rightarrow>
      case getitem exp' ''company'' of Inl e \<Rightarrow> Inl e | Inr company \<Rightarrow>
      case getitem exp' ''duration'' of Inl e \<Rightarrow> Inl e | Inr duration \<Rightarrow>
      case getitem exp' ''description'' of Inl e \<Rightarrow> Inl e | Inr description \<Rightarrow>
      Inr [role @ '' at '' @ company @ '' ('' @ duration @ '')'', ''  '' @ description])"

fun append_experiences :: "string list \<Rightarrow> pydict list \<Rightarrow> error + string list" where
  "append_experiences lines [] = Inr lines"
| "append_experiences lines (exp' # rest) =
     (case experience_lines exp' of
        Inl e \<Rightarrow> Inl e
      | Inr ls \<Rightarrow> append_experiences (lines @ ls) rest)"

definition education_line :: "pydict \<Rightarrow> error + string" where
  "education_line edu =
     (case getitem edu ''degree'' of Inl e \<Rightarrow> Inl e | Inr degree \<Rightarrow>
      case getitem edu ''institution'' of Inl e \<Rightarrow> Inl e | Inr institution \<Rightarrow>
      case getitem edu ''graduation_year'' of Inl e \<Rightarrow> Inl e | Inr graduation_year \<Rightarrow>
      Inr (degree @ '' from '' @ institution @ '' - '' @ graduation_year))"

fun append_education :: "string list \<Rightarrow> pydict list \<Rightarrow> error + string list" where
  "append_education lines [] = Inr lines"
| "append_education lines (edu # rest) =
     (case education_line edu of
        Inl e \<Rightarrow> Inl e
      | Inr l \<Rightarrow> append_education (lines @ [l]) rest)"

definition build_base_resume_text :: "UserProfile \<Rightarrow> error + string" where
  "build_base_resume_text user =
     (let lines = [''Name: '' @ full_name user,
                   ''Email: '' @ contact_email user,
                   ''Phone: '' @ phone_number user,
                   ''\<newline>Professional Summary:'',
                   professional_summary user,
                   ''\<newline>Skills:''];
          lines = lines @ map (\<lambda>skill. ''- '' @ skill) (skills user);
          lines = lines @ [''\<newline>Experience:'']
      in case append_experiences lines (experiences user) of
           Inl e \<Rightarrow> Inl e
         | Inr lines \<Rightarrow>
             (case append_education (lines @ [''\<newline>Education:'']) (education user) of
                Inl e \<Rightarrow> Inl e
              | Inr lines \<Rightarrow> Inr (py_join ''\<newline>'' lines)))"

subsection \<open>The remote text-completion service and the credential\<close>

definition MODEL_NAME :: string where
  "MODEL_NAME = ''gpt-3.5-turbo''"

definition MAX_TOKENS :: nat where
  "MAX_TOKENS = 1000"

definition TEMPERATURE :: rat where
  "TEMPERATURE = 7 / 10"

record completion_request =
  req_model :: string
  req_messages :: "(string \<times> string) list"
  req_max_tokens :: nat
  req_temperature :: rat

text \<open>
  The world outside the process: the credential read at start-up (\<^verbatim>\<open>openai.api_key\<close>),
  the remote service, which answers the \<open>n\<close>-th request with an exception or with the
  texts of its choices, and the requests sent so far.
\<close>

record world =
  api_key :: "string option"
  remote :: "nat \<Rightarrow> completion_request \<Rightarrow> error + string list"
  requests :: "completion_request list"

text \<open>\<^verbatim>\<open>openai.api_key = os.environ.get("OPENAI_API_KEY", None)\<close>.\<close>

definition api_key_from_environ :: "(string \<rightharpoonup> string) \<Rightarrow> string option" where
  "api_key_from_environ environ = environ ''OPENAI_API_KEY''"

text \<open>
  \<^verbatim>\<open>openai.ChatCompletion.create(...)\<close> followed by
  \<^verbatim>\<open>response.choices[0].message.content.strip()\<close>.
\<close>

definition chat_completion :: "string \<Rightarrow> world \<Rightarrow> (error + string) \<times> world" where
  "chat_completion prompt w =
     (let req = \<lparr>req_model = MODEL_NAME, req_messages = [(''system'', prompt)],
                 req_max_tokens = MAX_TOKENS, req_temperature = TEMPERATURE\<rparr>;
          w' = w\<lparr>requests := requests w @ [req]\<rparr>
      in case remote w (length (requests w)) req of
           Inl e \<Rightarrow> (Inl e, w')
         | Inr [] \<Rightarrow> (Inl IndexError, w')
         | Inr (content # _) \<Rightarrow> (Inr (py_strip content), w'))"

subsection \<open>\<^verbatim>\<open>generate_tailored_resume\<close>\<close>

definition tailored_resume_prompt :: "string \<Rightarrow> string \<Rightarrow> JobDescription \<Rightarrow> string" where
  "tailored_resume_prompt jake_format_instructions base_resume_text job =
     ''You are a helpful assistant that customizes resumes.\<newline>'' @
     ''Given the following base resume and job description,\<newline>'' @
     ''produce a final tailored resume that emphasizes relevant\<newline>'' @
     ''skills and experiences. Keep length concise but effective.\<newline>\<newline>'' @
     jake_format_instructions @ ''\<newline>'' @
     ''Base Resume:\<newline>'' @
     base_resume_text @ ''\<newline>\<newline>'' @
     ''Job Description:\<newline>'' @
     ''Company Name: '' @ company_name job @ ''\<newline>'' @
     ''Position Title: '' @ position_title job @ ''\<newline>'' @
     ''Responsibilities:\<newline>'' @ responsibilities job @ ''\<newline>'' @
     ''Required Skills: '' @ py_join '', '' (required_skills job) @ ''\<newline>'' @
     ''Location: '' @ job_location job @ ''\<newline>'' @
     ''Job Summary:\<newline>'' @ job_summary job @ ''\<newline>'' @
     ''Additional Notes: '' @ or_default (additional_notes job) ''N/A'' @ ''\<newline>\<newline>'' @
     ''Final Tailored Resume (following Jake's format):''"

definition generate_tailored_resume ::
  "UserProfile \<Rightarrow> JobDescription \<Rightarrow> world \<Rightarrow> (error + string) \<times> world" where
  "generate_tailored_resume user job w =
     (if falsy (api_key w)
      then (Inr ''[ERROR] OpenAI API key not found. Cannot generate tailored resume.'', w)
      else
        (case build_base_resume_text user of
           Inl e \<Rightarrow> (Inl e, w)
         | Inr base_resume_text \<Rightarrow>
             (let jake_format_instructions = JakesResumeFormatter_get_format_instructions;
                  prompt = tailored_resume_prompt jake_format_instructions base_resume_text job
              in case chat_completion prompt w of
                   (Inl e, w') \<Rightarrow> (Inl e, w')
                 | (Inr tailored_resume, w') \<Rightarrow>
                     (Inr (JakesResumeFormatter_post_process_text tailored_resume), w'))))"

subsection \<open>\<^verbatim>\<open>generate_cover_letter\<close>\<close>

definition cover_letter_prompt_head :: "string \<Rightarrow> UserProfile \<Rightarrow> string" where
  "cover_letter_prompt_head dedy_format_instructions user =
     ''You are an expert at writing professional cover letters. Given the '' @
     ''user's details and the job description, write a cover letter that is '' @
     ''polite, engaging, concise, and highlights the user's relevant skills, '' @
     ''experiences, and genuine interest. Follow Dedy's cover letter format.\<newline>\<newline>'' @
     dedy_format_instructions @ ''\<newline>\<newline>'' @
     ''User's Name: '' @ full_name user @ ''\<newline>'' @
     ''Professional Summary: '' @ professional_summary user @ ''\<newline>'' @
     ''Key Skills: '' @ py_join '', '' (skills user) @ ''\<newline>\<newline>'' @
     ''User's Experiences:\<newline>''"

text \<open>One pass of the loop \<^verbatim>\<open>for idx, exp in enumerate(user.experiences, start=1)\<close>.\<close>

definition enumerated_experience :: "nat \<Rightarrow> pydict \<Rightarrow> error + string" where
  "enumerated_experience idx exp' =
     (case getitem exp' ''role'' of Inl e \<Rightarrow> Inl e | Inr role \<Rightarrow>
      case getitem exp' ''company'' of Inl e \<Rightarrow> Inl e | Inr company \<Rightarrow>
      case getitem exp' ''duration'' of Inl e \<Rightarrow> Inl e | Inr duration \<Rightarrow>
      case getitem exp' ''description'' of Inl e \<Rightarrow> Inl e | Inr description \<Rightarrow>
      Inr (string_of_nat idx @ ''. '' @ role @ '' at '' @ company @ '' ('' @ duration @ ''): '' @
           description @ ''\<newline>''))"

fun append_enumerated :: "string \<Rightarrow> nat \<Rightarrow> pydict list \<Rightarrow> error + string" where
  "append_enumerated prompt idx [] = Inr prompt"
| "append_enumerated prompt idx (exp' # rest) =
     (case enumerated_experience idx exp' of
        Inl e \<Rightarrow> Inl e
      | Inr l \<Rightarrow> append_enumerated (prompt @ l) (Suc idx) rest)"

definition cover_letter_prompt_tail :: "JobDescription \<Rightarrow> string" where
  "cover_letter_prompt_tail job =
     ''\<newline>Job Description:\<newline>'' @
     ''Company Name: '' @ company_name job @ ''\<newline>'' @
     ''Position Title: '' @ position_title job @ ''\<newline>'' @
     ''Responsibilities:\<newline>'' @ responsibilities job @ ''\<newline>'' @
     ''Required Skills: '' @ py_join '', '' (required_skills job) @ ''\<newline>'' @
     ''Location: '' @ job_location job @ ''\<newline>'' @
     ''Job Summary:\<newline>'' @ job_summary job @ ''\<newline>'' @
     ''Additional Notes: '' @ format_opt_str (additional_notes job) @ ''\<newline>\<newline>'' @
     ''Now write the cover letter following Dedy's format.''"

definition cover_letter_prompt :: "UserProfile \<Rightarrow> JobDescription \<Rightarrow> error + string" where
  "cover_letter_prompt user job =
     (let dedy_format_instructions = DedyCoverLetterFormatter_get_format_instructions;
          prompt = cover_letter_prompt_head dedy_format_instructions user
      in case append_enumerated prompt 1 (experiences user) of
           Inl e \<Rightarrow> Inl e
         | Inr prompt \<Rightarrow> Inr (prompt @ cover_letter_prompt_tail job))"

definition generate_cover_letter ::
  "UserProfile \<Rightarrow> JobDescription \<Rightarrow> world \<Rightarrow> (error + string) \<times> world" where
  "generate_cover_letter user job w =
     (if falsy (api_key w)
      then (Inr ''[ERROR] OpenAI API key not found. Cannot generate cover letter.'', w)
      else
        (case cover_letter_prompt user job of
           Inl e \<Rightarrow> (Inl e, w)
         | Inr prompt \<Rightarrow>
             (case chat_completion prompt w of
                (Inl e, w') \<Rightarrow> (Inl e, w')
              | (Inr cover_letter, w') \<Rightarrow>
                  (Inr (DedyCoverLetterFormatter_post_process_text cover_letter), w'))))"

section \<open>Output file names\<close>

text \<open>
  \<^verbatim>\<open>datetime.datetime.now()\<close> is an input of the model: the naive local date and time the
  call reads from the clock. \<^verbatim>\<open>strftime("%Y%m%d_%H%M%S")\<close> prints the year in decimal and
  every other field in two digits.
\<close>

record datetime =
  year :: nat
  month :: nat
  day :: nat
  hour :: nat
  minute :: nat
  second :: nat
  microsecond :: nat

definition valid_datetime :: "datetime \<Rightarrow> bool" where
  "valid_datetime t =
     (1 \<le> year t \<and> year t \<le> 9999 \<and> 1 \<le> month t \<and> month t \<le> 12 \<and>
      1 \<le> day t \<and> day t \<le> 31 \<and> hour t < 24 \<and> minute t < 60 \<and> second t < 60 \<and>
      microsecond t < 1000000)"

definition pad2 :: "nat \<Rightarrow> string" where
  "pad2 n = (if n < 10 then ''0'' @ string_of_nat n else string_of_nat n)"

definition strftime :: "datetime \<Rightarrow> string" where
  "strftime t =
     string_of_nat (year t) @ pad2 (month t) @ pad2 (day t) @ ''_'' @
     pad2 (hour t) @ pad2 (minute t) @ pad2 (second t)"

definition create_output_filenames :: "string \<Rightarrow> datetime \<Rightarrow> pydict" where
  "create_output_filenames base_name now =
     (let timestamp = strftime now;
          resume_filename = base_name @ ''_resume_'' @ timestamp @ ''.txt'';
          cover_letter_filename = base_name @ ''_cover_letter_'' @ timestamp @ ''.txt''
      in [(''resume'', resume_filename), (''cover_letter'', cover_letter_filename)])"

text \<open>Two clock readings lie within the same second when they agree up to the seconds field.\<close>

definition same_second :: "datetime \<Rightarrow> datetime \<Rightarrow> bool" where
  "same_second s t =
     (year s = year t \<and> month s = month t \<and> day s = day t \<and>
      hour s = hour t \<and> minute s = minute t \<and> second s = second t)"

section \<open>Theorems\<close>

text \<open>
  Claim C8. The post-processing hook of each format-instruction provider returns the text
  it is given: \<^verbatim>\<open>JakesResumeFormatter.post_process_text(s) = s\<close> and
  \<^verbatim>\<open>DedyCoverLetterFormatter.post_process_text(s) = s\<close> for every string \<open>s\<close>.
\<close>

theorem post_process_text_identity:
  "JakesResumeFormatter_post_process_text s = s \<and> DedyCoverLetterFormatter_post_process_text s = s"
  by (simp add: JakesResumeFormatter_post_process_text_def
      DedyCoverLetterFormatter_post_process_text_def)

end
